theory Spec2Isabelle
  imports Complex_Main
begin

section \<open>The Prototype example: values, errors and the object store\<close>

text \<open>
  The module \<^verbatim>\<open>design_patterns/creational/prototype.py\<close> defines the class
  \<^verbatim>\<open>WeaponType\<close> (the prototype, with \<^verbatim>\<open>clone\<close> and
  \<^verbatim>\<open>determine_probability\<close>) and the class \<^verbatim>\<open>TypeRegistry\<close>
  (a dictionary of prototypes by name).

  Python objects are mutable and are handled by reference, so the model has an explicit
  store. An object reference is an index into the store; allocation appends, so a new
  object never has the address of an existing one. Exceptions are values of \<open>py_error\<close>;
  an operation that can raise returns the store it leaves behind together with either
  the exception or its result.

  The values that a caller stores are data values: \<^verbatim>\<open>None\<close>, strings, integers and
  floats. The program stores, compares and returns floats and never computes with them,
  so a float is the rational number its literal denotes. On these values \<^verbatim>\<open>==\<close> is
  equality within one type, and a value that is not a string is different from every
  string. Reading an attribute can also give what the class or the interpreter supplies:
  a bound method, the class, the \<^verbatim>\<open>__dict__\<close> of the instance.

  The specification names the attribute \<^verbatim>\<open>prob\<close> \<open>probability\<close>, both uses of
  \<^verbatim>\<open>KeyError\<close> \<open>ConfigurationError\<close> and \<open>NotFoundError\<close>, and the methods of the
  registry \<open>register\<close>, \<open>unregister\<close> and \<open>all\<close>.
\<close>

type_synonym addr = nat

datatype pyval = PyNone | PyStr string | PyInt int | PyFloat rat

datatype py_error = KeyError string | AttributeError string | TypeError

text \<open>
  What reading an attribute gives: a data value; the method \<^verbatim>\<open>clone\<close> bound to the
  instance; the class method \<^verbatim>\<open>determine_probability\<close>, bound to the class; the
  \<^verbatim>\<open>__dict__\<close> of the instance; the class \<^verbatim>\<open>WeaponType\<close>; or an attribute that every
  instance has from the interpreter, such as \<^verbatim>\<open>__repr__\<close>.
\<close>

datatype attr =
    Value pyval
  | BoundClone addr
  | BoundDetermineProbability
  | InstanceDict addr
  | TheClass
  | Inherited string addr

text \<open>A namespace is the \<^verbatim>\<open>__dict__\<close> of an instance, the data attributes of the class,
  or the keyword arguments \<^verbatim>\<open>**attrs\<close> of a call.\<close>

type_synonym namespace = "string \<rightharpoonup> pyval"

text \<open>
  The dictionary \<^verbatim>\<open>_objects\<close> of a registry is enumerated by \<^verbatim>\<open>main\<close>, in insertion
  order: it is an association list, in the order of insertion, whose keys are the
  names and whose values are references to instances.
\<close>

type_synonym pydict = "(string \<times> addr) list"

record state =
  WeaponType_ns :: namespace
  instances :: "namespace list"
  dicts :: "pydict list"

text \<open>The data attributes of the class body of \<^verbatim>\<open>WeaponType\<close>: \<^verbatim>\<open>name = 'iron'\<close> and
  \<^verbatim>\<open>rarity = "common"\<close>. They are part of the store: a client can rebind them.\<close>

definition WeaponType_class :: namespace where
  "WeaponType_class = [''name'' \<mapsto> PyStr ''iron'', ''rarity'' \<mapsto> PyStr ''common'']"

text \<open>
  The class \<^verbatim>\<open>object\<close> defines \<^verbatim>\<open>__class__\<close>, and the class statement gives
  \<^verbatim>\<open>WeaponType\<close> the entries \<^verbatim>\<open>__dict__\<close> and \<^verbatim>\<open>__weakref__\<close>. The three are data
  descriptors: on an instance they are found before the instance's own \<^verbatim>\<open>__dict__\<close> is
  looked at, for reading and for writing.
\<close>

definition data_descriptors :: "string list" where
  "data_descriptors = [''__class__'', ''__dict__'', ''__weakref__'']"

text \<open>The other attributes that an instance has from \<^verbatim>\<open>object\<close> and from the class
  statement (CPython 3.11 and 3.12). None is a data descriptor.\<close>

definition object_attrs :: "string list" where
  "object_attrs =
     [''__delattr__'', ''__dir__'', ''__doc__'', ''__eq__'', ''__format__'', ''__ge__'',
      ''__getattribute__'', ''__getstate__'', ''__gt__'', ''__hash__'', ''__init__'',
      ''__init_subclass__'', ''__le__'', ''__lt__'', ''__module__'', ''__ne__'', ''__new__'',
      ''__reduce__'', ''__reduce_ex__'', ''__repr__'', ''__setattr__'', ''__sizeof__'',
      ''__str__'', ''__subclasshook__'']"

definition init_state :: state where
  "init_state = \<lparr>WeaponType_ns = WeaponType_class, instances = [], dicts = []\<rparr>"

subsection \<open>Instances and their attributes\<close>

text \<open>\<^verbatim>\<open>WeaponType()\<close>: the class has no \<^verbatim>\<open>__init__\<close>, so the new instance has an
  empty \<^verbatim>\<open>__dict__\<close>.\<close>

definition WeaponType_new :: "state \<Rightarrow> state \<times> addr" where
  "WeaponType_new s = (s\<lparr>instances := instances s @ [Map.empty]\<rparr>, length (instances s))"

text \<open>
  \<^verbatim>\<open>obj.n\<close>, as \<^verbatim>\<open>object.__getattribute__\<close> finds it: a data descriptor of the class
  first, then the instance's own \<^verbatim>\<open>__dict__\<close>, then the class. In the class, a data
  attribute bound under the name comes first, then the two methods of the class body,
  then what the interpreter supplies. \<open>None\<close> is Python's AttributeError.
\<close>

definition descriptor_get :: "addr \<Rightarrow> string \<Rightarrow> attr" where
  "descriptor_get obj n =
     (if n = ''__class__'' then TheClass
      else if n = ''__dict__'' then InstanceDict obj
      else Value PyNone)"

definition class_getattr :: "state \<Rightarrow> addr \<Rightarrow> string \<Rightarrow> attr option" where
  "class_getattr s obj n =
     (case WeaponType_ns s n of
        Some v \<Rightarrow> Some (Value v)
      | None \<Rightarrow>
          if n = ''clone'' then Some (BoundClone obj)
          else if n = ''determine_probability'' then Some BoundDetermineProbability
          else if n \<in> set object_attrs then Some (Inherited n obj)
          else None)"

definition getattr :: "state \<Rightarrow> addr \<Rightarrow> string \<Rightarrow> attr option" where
  "getattr s obj n =
     (if obj < length (instances s) then
        (if n \<in> set data_descriptors then Some (descriptor_get obj n)
         else (case (instances s ! obj) n of
                 Some v \<Rightarrow> Some (Value v)
               | None \<Rightarrow> class_getattr s obj n))
      else None)"

definition hasattr :: "state \<Rightarrow> addr \<Rightarrow> string \<Rightarrow> bool" where
  "hasattr s obj n = (getattr s obj n \<noteq> None)"

text \<open>
  \<^verbatim>\<open>obj.n = v\<close> for a data value \<open>v\<close>. The three data descriptors refuse it:
  \<^verbatim>\<open>__class__\<close> wants a class and \<^verbatim>\<open>__dict__\<close> a dictionary (TypeError), and
  \<^verbatim>\<open>__weakref__\<close> is not writable (AttributeError). Every other name is written into the
  instance's \<^verbatim>\<open>__dict__\<close>, never into the class.
\<close>

definition setattr :: "state \<Rightarrow> addr \<Rightarrow> string \<Rightarrow> pyval \<Rightarrow> state \<times> (py_error + unit)" where
  "setattr s obj n v =
     (if n = ''__class__'' \<or> n = ''__dict__'' then (s, Inl TypeError)
      else if n = ''__weakref__'' then (s, Inl (AttributeError ''__weakref__''))
      else (s\<lparr>instances := (instances s)[obj := (instances s ! obj)(n \<mapsto> v)]\<rparr>, Inr ()))"

text \<open>\<^verbatim>\<open>obj.__dict__.update(attrs)\<close>: \<^verbatim>\<open>__dict__\<close> is a data descriptor, so this is the
  instance's own dictionary whatever the instance holds; the update writes the
  dictionary directly, under any name.\<close>

definition dict_update :: "state \<Rightarrow> addr \<Rightarrow> namespace \<Rightarrow> state" where
  "dict_update s obj attrs = s\<lparr>instances := (instances s)[obj := (instances s ! obj) ++ attrs]\<rparr>"

subsection \<open>\<^verbatim>\<open>WeaponType.determine_probability\<close> and \<^verbatim>\<open>WeaponType.clone\<close>\<close>

text \<open>
  The class method reads \<^verbatim>\<open>obj.rarity\<close>, which raises AttributeError when the lookup
  finds nothing; then come the three rarities of the table, and last the test
  \<^verbatim>\<open>hasattr(obj, "prob")\<close> and \<^verbatim>\<open>return obj.prob\<close>. Neither \<^verbatim>\<open>prob\<close> nor \<^verbatim>\<open>rarity\<close> is a
  name of the class's methods or of the interpreter, so what the lookup of \<^verbatim>\<open>prob\<close> finds
  is a data value (lemma \<open>getattr_prob\<close> below); the last line of the definition is
  never reached.
\<close>

definition determine_probability :: "state \<Rightarrow> addr \<Rightarrow> py_error + pyval" where
  "determine_probability s obj =
     (case getattr s obj ''rarity'' of
        None \<Rightarrow> Inl (AttributeError ''rarity'')
      | Some r \<Rightarrow>
          if r = Value (PyStr ''common'') then Inr (PyFloat 0.8)
          else if r = Value (PyStr ''uncommon'') then Inr (PyFloat 0.4)
          else if r = Value (PyStr ''rare'') then Inr (PyFloat 0.05)
          else if \<not> hasattr s obj ''prob'' then
            Inl (KeyError ''Rarity not defined, please provide a prob'')
          else (case getattr s obj ''prob'' of
                  Some (Value p) \<Rightarrow> Inr p
                | _ \<Rightarrow> Inl (AttributeError ''prob'')))"

text \<open>
  \<^verbatim>\<open>def clone(self, **attrs)\<close>: a keyword argument named \<^verbatim>\<open>self\<close> collides with the
  receiver, and the call raises TypeError before the body runs. The body:
  \<^verbatim>\<open>obj = self.__class__()\<close>, where \<^verbatim>\<open>__class__\<close> is a data descriptor and gives the class
  \<^verbatim>\<open>WeaponType\<close>, the only class of prototypes in the module;
  \<^verbatim>\<open>obj.__dict__.update(attrs)\<close>; \<^verbatim>\<open>obj.prob = self.determine_probability(obj)\<close>;
  \<^verbatim>\<open>return obj\<close>. The method is looked up on the receiver: an entry
  \<^verbatim>\<open>determine_probability\<close> of the receiver's own \<^verbatim>\<open>__dict__\<close>, or a data attribute of the
  class under that name, is found instead of the class method, and calling a data value
  raises TypeError. When line 64 raises, the new instance stays in the store, with the
  overrides, and nothing refers to it.
\<close>

definition clone :: "state \<Rightarrow> addr \<Rightarrow> namespace \<Rightarrow> state \<times> (py_error + addr)" where
  "clone s self attrs =
     (if attrs ''self'' \<noteq> None then (s, Inl TypeError)
      else
        let (s1, obj) = WeaponType_new s;
            s2 = dict_update s1 obj attrs
        in case getattr s2 self ''determine_probability'' of
             None \<Rightarrow> (s2, Inl (AttributeError ''determine_probability''))
           | Some BoundDetermineProbability \<Rightarrow>
               (case determine_probability s2 obj of
                  Inl e \<Rightarrow> (s2, Inl e)
                | Inr p \<Rightarrow>
                    (case setattr s2 obj ''prob'' p of
                       (s3, Inl e) \<Rightarrow> (s3, Inl e)
                     | (s3, Inr u) \<Rightarrow> (s3, Inr obj)))
           | Some _ \<Rightarrow> (s2, Inl TypeError))"

subsection \<open>Dictionaries of the store\<close>

text \<open>\<^verbatim>\<open>d[k] = v\<close>: an existing key keeps its place and gets the new value, a new key
  goes to the end.\<close>

fun dict_setitem :: "pydict \<Rightarrow> string \<Rightarrow> addr \<Rightarrow> pydict" where
  "dict_setitem [] k v = [(k, v)]"
| "dict_setitem ((k', v') # d) k v =
     (if k' = k then (k', v) # d else (k', v') # dict_setitem d k v)"

text \<open>\<^verbatim>\<open>d[k]\<close> raises KeyError on a missing key.\<close>

fun dict_getitem :: "pydict \<Rightarrow> string \<Rightarrow> py_error + addr" where
  "dict_getitem [] k = Inl (KeyError k)"
| "dict_getitem ((k', v') # d) k = (if k' = k then Inr v' else dict_getitem d k)"

text \<open>\<^verbatim>\<open>del d[k]\<close> removes the entry of the key, and raises KeyError on a missing key.\<close>

fun dict_delitem :: "pydict \<Rightarrow> string \<Rightarrow> py_error + pydict" where
  "dict_delitem [] k = Inl (KeyError k)"
| "dict_delitem ((k', v') # d) k =
     (if k' = k then Inr d
      else (case dict_delitem d k of
              Inl e \<Rightarrow> Inl e
            | Inr d' \<Rightarrow> Inr ((k', v') # d')))"

text \<open>\<^verbatim>\<open>k in d\<close>, and the number of entries a dictionary holds for a key.\<close>

definition dict_contains :: "pydict \<Rightarrow> string \<Rightarrow> bool" where
  "dict_contains d k = (k \<in> set (map fst d))"

definition dict_entries :: "pydict \<Rightarrow> string \<Rightarrow> nat" where
  "dict_entries d k = length (filter (\<lambda>e. fst e = k) d)"

text \<open>A Python dictionary never holds a key twice.\<close>

definition dict_ok :: "pydict \<Rightarrow> bool" where
  "dict_ok d = distinct (map fst d)"

text \<open>A caller that holds a reference \<open>m\<close> to a dictionary reads it with
  \<open>deref\<close> and writes it with \<^verbatim>\<open>m[k] = v\<close>.\<close>

definition deref :: "state \<Rightarrow> addr \<Rightarrow> pydict" where
  "deref s m = dicts s ! m"

definition store_setitem :: "state \<Rightarrow> addr \<Rightarrow> string \<Rightarrow> addr \<Rightarrow> state" where
  "store_setitem s m k v = s\<lparr>dicts := (dicts s)[m := dict_setitem (dicts s ! m) k v]\<rparr>"

subsection \<open>\<^verbatim>\<open>TypeRegistry\<close>\<close>

text \<open>A registry has one attribute, \<^verbatim>\<open>_objects\<close>, bound once by \<^verbatim>\<open>__init__\<close> to a
  new empty dictionary and never rebound: the record holds the reference.\<close>

record TypeRegistry =
  objects :: addr

definition TypeRegistry_init :: "state \<Rightarrow> state \<times> TypeRegistry" where
  "TypeRegistry_init s = (s\<lparr>dicts := dicts s @ [[]]\<rparr>, \<lparr>objects = length (dicts s)\<rparr>)"

text \<open>\<^verbatim>\<open>return self._objects\<close>: the reference itself.\<close>

definition get_objects :: "TypeRegistry \<Rightarrow> addr" where
  "get_objects self = objects self"

text \<open>\<^verbatim>\<open>self._objects[name] = obj\<close>.\<close>

definition register_object :: "state \<Rightarrow> TypeRegistry \<Rightarrow> string \<Rightarrow> addr \<Rightarrow> state" where
  "register_object s self name obj =
     s\<lparr>dicts := (dicts s)[objects self := dict_setitem (dicts s ! objects self) name obj]\<rparr>"

text \<open>\<^verbatim>\<open>del self._objects[name]\<close>.\<close>

definition unregister_object :: "state \<Rightarrow> TypeRegistry \<Rightarrow> string \<Rightarrow> state \<times> (py_error + unit)" where
  "unregister_object s self name =
     (case dict_delitem (dicts s ! objects self) name of
        Inl e \<Rightarrow> (s, Inl e)
      | Inr d \<Rightarrow> (s\<lparr>dicts := (dicts s)[objects self := d]\<rparr>, Inr ()))"

text \<open>The registry \<open>r\<close> is an object of the store \<open>s\<close>, and its dictionary is a
  Python dictionary.\<close>

definition registry_ok :: "state \<Rightarrow> TypeRegistry \<Rightarrow> bool" where
  "registry_ok s r = (objects r < length (dicts s) \<and> dict_ok (dicts s ! objects r))"

subsection \<open>The first two statements of \<^verbatim>\<open>main\<close>\<close>

text \<open>\<^verbatim>\<open>registry = TypeRegistry()\<close> and \<^verbatim>\<open>prototype_weapons = WeaponType()\<close>: the store
  \<open>root_state\<close> holds an empty registry and the root prototype, at address 0.\<close>

definition registry :: TypeRegistry where
  "registry = snd (TypeRegistry_init init_state)"

definition root_state :: state where
  "root_state = fst (WeaponType_new (fst (TypeRegistry_init init_state)))"

text \<open>\<^verbatim>\<open>p = prototype_weapons.clone(determine_probability=5)\<close>: any attribute name is
  accepted as an override. The call returns; the store \<open>shadowing_state\<close> holds the
  prototype \<open>p\<close> at address 1, with an instance attribute \<^verbatim>\<open>determine_probability\<close>.\<close>

definition shadowing_state :: state where
  "shadowing_state = fst (clone root_state 0 [''determine_probability'' \<mapsto> PyInt 5])"

section \<open>Cloning\<close>

text \<open>Attribute lookup by name: the names that the class and the interpreter leave to the
  data attributes.\<close>

lemma class_getattr_instances:
  "class_getattr (s\<lparr>instances := xs\<rparr>) obj n = class_getattr s obj n"
  by (simp add: class_getattr_def)

lemma class_getattr_data:
  assumes "n \<noteq> ''clone''" and "n \<noteq> ''determine_probability''" and "n \<notin> set object_attrs"
  shows "class_getattr s obj n = map_option Value (WeaponType_ns s n)"
  using assms by (simp add: class_getattr_def split: option.splits)

lemma data_names:
  "''rarity'' \<notin> set data_descriptors" "''rarity'' \<notin> set object_attrs"
  "''prob'' \<notin> set data_descriptors" "''prob'' \<notin> set object_attrs"
  "''name'' \<notin> set data_descriptors" "''name'' \<notin> set object_attrs"
  "''determine_probability'' \<notin> set data_descriptors"
  by (simp_all add: data_descriptors_def object_attrs_def)

lemma getattr_prob:
  "getattr s obj ''prob'' = None \<or> (\<exists>v. getattr s obj ''prob'' = Some (Value v))"
  by (auto simp: getattr_def data_names class_getattr_data split: option.splits)

lemma getattr_determine_probability:
  "getattr s obj ''determine_probability'' = None \<or>
   getattr s obj ''determine_probability'' = Some BoundDetermineProbability \<or>
   (\<exists>v. getattr s obj ''determine_probability'' = Some (Value v))"
  by (simp add: getattr_def data_names class_getattr_def split: option.splits)

text \<open>
  The new instance of a \<^verbatim>\<open>clone\<close> call sits at the end of the store, and its
  \<^verbatim>\<open>__dict__\<close> is exactly the overrides. Under a name that is not a data descriptor it
  has the override where there is one, and what the class gives otherwise.
\<close>

lemma getattr_new:
  assumes "n \<notin> set data_descriptors"
  shows "getattr (s\<lparr>instances := instances s @ [ns]\<rparr>) (length (instances s)) n =
           (case ns n of
              Some v \<Rightarrow> Some (Value v)
            | None \<Rightarrow> class_getattr s (length (instances s)) n)"
  using assms by (simp add: getattr_def class_getattr_instances split: option.splits)

lemma getattr_new_data:
  assumes "n \<notin> set data_descriptors" and "n \<noteq> ''clone''"
    and "n \<noteq> ''determine_probability''" and "n \<notin> set object_attrs"
  shows "getattr (s\<lparr>instances := instances s @ [ns]\<rparr>) (length (instances s)) n =
           map_option Value ((WeaponType_ns s ++ ns) n)"
  unfolding getattr_new [OF assms(1)] class_getattr_data [OF assms(2-4)]
  by (simp add: map_add_def split: option.splits)

lemma getattr_old:
  "a < length (instances s) \<Longrightarrow>
     getattr (s\<lparr>instances := instances s @ [ns]\<rparr>) a n = getattr s a n"
  by (simp add: getattr_def nth_append class_getattr_instances split: option.splits)

lemma determine_probability_new:
  "determine_probability (s\<lparr>instances := instances s @ [attrs]\<rparr>) (length (instances s)) =
     (case (WeaponType_ns s ++ attrs) ''rarity'' of
        None \<Rightarrow> Inl (AttributeError ''rarity'')
      | Some r \<Rightarrow>
          if r = PyStr ''common'' then Inr (PyFloat 0.8)
          else if r = PyStr ''uncommon'' then Inr (PyFloat 0.4)
          else if r = PyStr ''rare'' then Inr (PyFloat 0.05)
          else (case (WeaponType_ns s ++ attrs) ''prob'' of
                  None \<Rightarrow> Inl (KeyError ''Rarity not defined, please provide a prob'')
                | Some p \<Rightarrow> Inr p))"
proof -
  have rarity: "getattr (s\<lparr>instances := instances s @ [attrs]\<rparr>) (length (instances s)) ''rarity''
                  = map_option Value ((WeaponType_ns s ++ attrs) ''rarity'')"
    by (rule getattr_new_data) (simp_all add: data_names)
  have prob: "getattr (s\<lparr>instances := instances s @ [attrs]\<rparr>) (length (instances s)) ''prob''
                = map_option Value ((WeaponType_ns s ++ attrs) ''prob'')"
    by (rule getattr_new_data) (simp_all add: data_names)
  show ?thesis
  proof (cases "(WeaponType_ns s ++ attrs) ''rarity''")
    case None
    then show ?thesis
      by (simp only: determine_probability_def rarity option.case option.map)
  next
    case r: (Some r)
    show ?thesis
    proof (cases "(WeaponType_ns s ++ attrs) ''prob''")
      case None
      with r show ?thesis
        by (simp only: determine_probability_def hasattr_def rarity prob option.case option.map)
           simp
    next
      case (Some p)
      with r show ?thesis
        by (simp only: determine_probability_def hasattr_def rarity prob option.case option.map)
           simp
    qed
  qed
qed

text \<open>The three ways a \<^verbatim>\<open>clone\<close> call goes: the keyword \<^verbatim>\<open>self\<close>, a receiver on which
  \<^verbatim>\<open>determine_probability\<close> is a data value, and a receiver on which it is the class
  method.\<close>

lemma clone_self_keyword:
  "attrs ''self'' = Some v \<Longrightarrow> clone s self attrs = (s, Inl TypeError)"
  by (simp add: clone_def)

lemma getattr_receiver:
  assumes "getattr s self n = Some a"
  shows "getattr (s\<lparr>instances := instances s @ [ns]\<rparr>) self n = Some a"
proof -
  from assms have "self < length (instances s)"
    by (simp add: getattr_def split: if_splits)
  then show ?thesis
    using assms by (simp add: getattr_old)
qed

lemma new_then_update:
  "(let (s1, obj) = WeaponType_new s; s2 = dict_update s1 obj attrs in f s2 obj) =
     f (s\<lparr>instances := instances s @ [attrs]\<rparr>) (length (instances s))"
  by (simp add: WeaponType_new_def dict_update_def)

lemma setattr_prob_new:
  "setattr (s\<lparr>instances := instances s @ [attrs]\<rparr>) (length (instances s)) ''prob'' p =
     (s\<lparr>instances := instances s @ [attrs(''prob'' \<mapsto> p)]\<rparr>, Inr ())"
  by (simp add: setattr_def)

lemma clone_shadowed:
  assumes "attrs ''self'' = None"
    and "getattr s self ''determine_probability'' = Some (Value v)"
  shows "clone s self attrs = (s\<lparr>instances := instances s @ [attrs]\<rparr>, Inl TypeError)"
  unfolding clone_def new_then_update
  using assms(1) getattr_receiver [OF assms(2), of attrs] by simp

lemma clone_unfold:
  assumes "attrs ''self'' = None"
    and "getattr s self ''determine_probability'' = Some BoundDetermineProbability"
  shows "clone s self attrs =
     (case determine_probability (s\<lparr>instances := instances s @ [attrs]\<rparr>)
             (length (instances s)) of
        Inl e \<Rightarrow> (s\<lparr>instances := instances s @ [attrs]\<rparr>, Inl e)
      | Inr p \<Rightarrow> (s\<lparr>instances := instances s @ [attrs(''prob'' \<mapsto> p)]\<rparr>,
                  Inr (length (instances s))))"
  unfolding clone_def new_then_update
  using assms(1) getattr_receiver [OF assms(2), of attrs]
  by (simp add: setattr_prob_new split: sum.splits)

text \<open>What a \<^verbatim>\<open>clone\<close> call leaves behind, on return and on an exception.\<close>

lemma clone_Inr:
  assumes "clone s self attrs = (s', Inr obj)"
  shows "obj = length (instances s) \<and>
         (\<exists>p. s' = s\<lparr>instances := instances s @ [attrs(''prob'' \<mapsto> p)]\<rparr>)"
  using assms unfolding clone_def new_then_update
  by (auto simp: setattr_prob_new split: if_splits option.splits attr.splits sum.splits)

lemma clone_Inl:
  assumes "clone s self attrs = (s', Inl e)"
  shows "s' = s \<or> s' = s\<lparr>instances := instances s @ [attrs]\<rparr>"
  using assms unfolding clone_def new_then_update
  by (auto simp: setattr_prob_new split: if_splits option.splits attr.splits sum.splits)


text \<open>Setting an attribute writes one instance only.\<close>

lemma getattr_setattr_other:
  "a \<noteq> b \<Longrightarrow> getattr (fst (setattr s a n v)) b m = getattr s b m"
  by (simp add: getattr_def setattr_def class_getattr_instances split: option.splits)

lemma getattr_setattr_same:
  assumes "a < length (instances s)" and "n \<notin> set data_descriptors"
  shows "snd (setattr s a n v) = Inr () \<and> getattr (fst (setattr s a n v)) a n = Some (Value v)"
  using assms by (simp add: getattr_def setattr_def data_descriptors_def)

lemma clone_returns:
  assumes "attrs ''self'' = None"
    and "getattr s self ''determine_probability'' = Some BoundDetermineProbability"
    and "determine_probability (s\<lparr>instances := instances s @ [attrs]\<rparr>) (length (instances s))
           = Inr p"
  shows "clone s self attrs =
         (s\<lparr>instances := instances s @ [attrs(''prob'' \<mapsto> p)]\<rparr>, Inr (length (instances s)))"
  using assms by (simp add: clone_unfold)

lemma clone_raises:
  assumes "attrs ''self'' = None"
    and "getattr s self ''determine_probability'' = Some BoundDetermineProbability"
    and "determine_probability (s\<lparr>instances := instances s @ [attrs]\<rparr>) (length (instances s))
           = Inl e"
  shows "clone s self attrs = (s\<lparr>instances := instances s @ [attrs]\<rparr>, Inl e)"
  using assms by (simp add: clone_unfold)

text \<open>The store of \<^verbatim>\<open>main\<close>: the root prototype reads \<^verbatim>\<open>determine_probability\<close> as the
  class method.\<close>

lemma root_state_simps:
  "WeaponType_ns root_state = WeaponType_class" "instances root_state = [Map.empty]"
  "dicts root_state = [[]]" "objects registry = 0"
  by (simp_all add: root_state_def registry_def WeaponType_new_def TypeRegistry_init_def
        init_state_def)

lemma receiver_ok:
  assumes "WeaponType_ns s = WeaponType_class" and "self < length (instances s)"
    and "(instances s ! self) ''determine_probability'' = None"
  shows "getattr s self ''determine_probability'' = Some BoundDetermineProbability"
  using assms by (simp add: getattr_def class_getattr_def WeaponType_class_def data_names)

lemma root_receiver:
  "getattr root_state 0 ''determine_probability'' = Some BoundDetermineProbability"
  by (rule receiver_ok) (simp_all add: root_state_simps)

text \<open>The root prototype's clone with the override \<^verbatim>\<open>determine_probability=5\<close>: a
  prototype on which the name is a data value.\<close>

lemma clone_root_shadowing:
  "clone root_state 0 [''determine_probability'' \<mapsto> PyInt 5] =
     (root_state\<lparr>instances :=
        [Map.empty, [''determine_probability'' \<mapsto> PyInt 5, ''prob'' \<mapsto> PyFloat 0.8]]\<rparr>, Inr 1)"
proof -
  have "determine_probability
          (root_state\<lparr>instances := instances root_state @ [[''determine_probability'' \<mapsto> PyInt 5]]\<rparr>)
          (length (instances root_state)) = Inr (PyFloat 0.8)"
    unfolding determine_probability_new by (simp add: root_state_simps WeaponType_class_def)
  from clone_returns [OF _ root_receiver this] show ?thesis
    by (simp add: root_state_simps)
qed

lemma shadowing_state_simps:
  "shadowing_state = root_state\<lparr>instances :=
        [Map.empty, [''determine_probability'' \<mapsto> PyInt 5, ''prob'' \<mapsto> PyFloat 0.8]]\<rparr>"
  "snd (clone root_state 0 [''determine_probability'' \<mapsto> PyInt 5]) = Inr 1"
  by (simp_all add: shadowing_state_def clone_root_shadowing)

lemma shadowing_receiver:
  "getattr shadowing_state 1 ''determine_probability'' = Some (Value (PyInt 5))"
  by (simp add: shadowing_state_simps getattr_def data_names)

lemma clone_shadowing_state:
  "attrs ''self'' = None \<Longrightarrow> snd (clone shadowing_state 1 attrs) = Inl TypeError"
  using clone_shadowed [OF _ shadowing_receiver, of attrs] by simp

text \<open>
  Claim C1, for the calls that reach the class method. Let the receiver read \<^verbatim>\<open>determine_probability\<close> as the class
  method (its own \<^verbatim>\<open>__dict__\<close> has no entry of that name), and let no override be named
  \<^verbatim>\<open>self\<close>. Whenever the rarity of the new instance, after the overrides are applied, is
  \<^verbatim>\<open>"common"\<close>, \<^verbatim>\<open>"uncommon"\<close> or \<^verbatim>\<open>"rare"\<close>, \<^verbatim>\<open>clone\<close> returns an instance whose
  \<^verbatim>\<open>prob\<close> is 0.8, 0.4 or 0.05 respectively. Nothing else is asked of the overrides: an
  override of \<^verbatim>\<open>prob\<close> itself is overwritten by the table's value.
\<close>

theorem clone_rarity_table:
  assumes "getattr s self ''determine_probability'' = Some BoundDetermineProbability"
    and "attrs ''self'' = None"
  shows
  "((WeaponType_ns s ++ attrs) ''rarity'' = Some (PyStr ''common'') \<longrightarrow>
      (\<exists>s' obj. clone s self attrs = (s', Inr obj) \<and>
         getattr s' obj ''rarity'' = Some (Value (PyStr ''common'')) \<and>
         getattr s' obj ''prob'' = Some (Value (PyFloat 0.8)))) \<and>
   ((WeaponType_ns s ++ attrs) ''rarity'' = Some (PyStr ''uncommon'') \<longrightarrow>
      (\<exists>s' obj. clone s self attrs = (s', Inr obj) \<and>
         getattr s' obj ''rarity'' = Some (Value (PyStr ''uncommon'')) \<and>
         getattr s' obj ''prob'' = Some (Value (PyFloat 0.4)))) \<and>
   ((WeaponType_ns s ++ attrs) ''rarity'' = Some (PyStr ''rare'') \<longrightarrow>
      (\<exists>s' obj. clone s self attrs = (s', Inr obj) \<and>
         getattr s' obj ''rarity'' = Some (Value (PyStr ''rare'')) \<and>
         getattr s' obj ''prob'' = Some (Value (PyFloat 0.05))))"
proof -
  have table: "\<exists>s' obj. clone s self attrs = (s', Inr obj) \<and>
         getattr s' obj ''rarity'' = Some (Value (PyStr r)) \<and>
         getattr s' obj ''prob'' = Some (Value p)"
    if r: "(WeaponType_ns s ++ attrs) ''rarity'' = Some (PyStr r)"
      and p: "determine_probability (s\<lparr>instances := instances s @ [attrs]\<rparr>)
                (length (instances s)) = Inr p"
    for r p
  proof -
    let ?s' = "s\<lparr>instances := instances s @ [attrs(''prob'' \<mapsto> p)]\<rparr>"
    have c: "clone s self attrs = (?s', Inr (length (instances s)))"
      using assms(2,1) p by (rule clone_returns)
    have "(WeaponType_ns s ++ attrs(''prob'' \<mapsto> p)) ''rarity'' = Some (PyStr r)"
      using r by (simp add: map_add_def)
    then have g1: "getattr ?s' (length (instances s)) ''rarity'' = Some (Value (PyStr r))"
      by (simp add: getattr_new_data data_names)
    have g2: "getattr ?s' (length (instances s)) ''prob'' = Some (Value p)"
      by (simp add: getattr_new_data data_names)
    from c g1 g2 show ?thesis by blast
  qed
  show ?thesis
  proof (intro conjI impI)
    assume r: "(WeaponType_ns s ++ attrs) ''rarity'' = Some (PyStr ''common'')"
    then have "determine_probability (s\<lparr>instances := instances s @ [attrs]\<rparr>)
                (length (instances s)) = Inr (PyFloat 0.8)"
      unfolding determine_probability_new by simp
    with r show "\<exists>s' obj. clone s self attrs = (s', Inr obj) \<and>
         getattr s' obj ''rarity'' = Some (Value (PyStr ''common'')) \<and>
         getattr s' obj ''prob'' = Some (Value (PyFloat 0.8))"
      by (rule table)
  next
    assume r: "(WeaponType_ns s ++ attrs) ''rarity'' = Some (PyStr ''uncommon'')"
    then have "determine_probability (s\<lparr>instances := instances s @ [attrs]\<rparr>)
                (length (instances s)) = Inr (PyFloat 0.4)"
      unfolding determine_probability_new by simp
    with r show "\<exists>s' obj. clone s self attrs = (s', Inr obj) \<and>
         getattr s' obj ''rarity'' = Some (Value (PyStr ''uncommon'')) \<and>
         getattr s' obj ''prob'' = Some (Value (PyFloat 0.4))"
      by (rule table)
  next
    assume r: "(WeaponType_ns s ++ attrs) ''rarity'' = Some (PyStr ''rare'')"
    then have "determine_probability (s\<lparr>instances := instances s @ [attrs]\<rparr>)
                (length (instances s)) = Inr (PyFloat 0.05)"
      unfolding determine_probability_new by simp
    with r show "\<exists>s' obj. clone s self attrs = (s', Inr obj) \<and>
         getattr s' obj ''rarity'' = Some (Value (PyStr ''rare'')) \<and>
         getattr s' obj ''prob'' = Some (Value (PyFloat 0.05))"
      by (rule table)
  qed
qed

theorem clone_rarity_table_witness:
  "(\<exists>s' obj. clone root_state 0 [''name'' \<mapsto> PyStr ''stone''] = (s', Inr obj) \<and>
      getattr s' obj ''rarity'' = Some (Value (PyStr ''common'')) \<and>
      getattr s' obj ''prob'' = Some (Value (PyFloat 0.8))) \<and>
   (\<exists>s' obj. clone root_state 0 [''name'' \<mapsto> PyStr ''wood'', ''rarity'' \<mapsto> PyStr ''uncommon'']
        = (s', Inr obj) \<and>
      getattr s' obj ''rarity'' = Some (Value (PyStr ''uncommon'')) \<and>
      getattr s' obj ''prob'' = Some (Value (PyFloat 0.4))) \<and>
   (\<exists>s' obj. clone root_state 0 [''rarity'' \<mapsto> PyStr ''rare'', ''prob'' \<mapsto> PyFloat 0.5]
        = (s', Inr obj) \<and>
      getattr s' obj ''rarity'' = Some (Value (PyStr ''rare'')) \<and>
      getattr s' obj ''prob'' = Some (Value (PyFloat 0.05)))"
proof -
  have c: "(WeaponType_ns root_state ++ [''name'' \<mapsto> PyStr ''stone'']) ''rarity''
             = Some (PyStr ''common'')"
    by (simp add: root_state_simps WeaponType_class_def)
  have u: "(WeaponType_ns root_state ++ [''name'' \<mapsto> PyStr ''wood'', ''rarity'' \<mapsto> PyStr ''uncommon''])
             ''rarity'' = Some (PyStr ''uncommon'')"
    by simp
  have r: "(WeaponType_ns root_state ++ [''rarity'' \<mapsto> PyStr ''rare'', ''prob'' \<mapsto> PyFloat 0.5])
             ''rarity'' = Some (PyStr ''rare'')"
    by simp
  have k1: "[''name'' \<mapsto> PyStr ''stone''] ''self'' = None"
    and k2: "[''name'' \<mapsto> PyStr ''wood'', ''rarity'' \<mapsto> PyStr ''uncommon''] ''self'' = None"
    and k3: "[''rarity'' \<mapsto> PyStr ''rare'', ''prob'' \<mapsto> PyFloat 0.5] ''self'' = None"
    by simp_all
  note 1 = clone_rarity_table
    [of root_state 0 "[''name'' \<mapsto> PyStr ''stone'']", OF root_receiver k1,
      THEN conjunct1, THEN mp, OF c]
  note 2 = clone_rarity_table
    [of root_state 0 "[''name'' \<mapsto> PyStr ''wood'', ''rarity'' \<mapsto> PyStr ''uncommon'']",
      OF root_receiver k2, THEN conjunct2, THEN conjunct1, THEN mp, OF u]
  note 3 = clone_rarity_table
    [of root_state 0 "[''rarity'' \<mapsto> PyStr ''rare'', ''prob'' \<mapsto> PyFloat 0.5]",
      OF root_receiver k3, THEN conjunct2, THEN conjunct2, THEN mp, OF r]
  from 1 2 3 show ?thesis by (intro conjI)
qed

text \<open>Claim C1 without these conditions fails. An override named \<^verbatim>\<open>self\<close> makes the call
  raise TypeError, and so does every call on the prototype \<open>p\<close> of \<open>shadowing_state\<close>;
  in both cases the rarity after the overrides is \<^verbatim>\<open>"common"\<close>.\<close>

theorem clone_rarity_table_counterexample:
  "(WeaponType_ns root_state ++ [''self'' \<mapsto> PyInt 1]) ''rarity'' = Some (PyStr ''common'') \<and>
   clone root_state 0 [''self'' \<mapsto> PyInt 1] = (root_state, Inl TypeError) \<and>
   snd (clone root_state 0 [''determine_probability'' \<mapsto> PyInt 5]) = Inr 1 \<and>
   (WeaponType_ns shadowing_state ++ Map.empty) ''rarity'' = Some (PyStr ''common'') \<and>
   snd (clone shadowing_state 1 Map.empty) = Inl TypeError"
proof (intro conjI)
  show "(WeaponType_ns root_state ++ [''self'' \<mapsto> PyInt 1]) ''rarity'' = Some (PyStr ''common'')"
    by (simp add: root_state_simps WeaponType_class_def)
  show "clone root_state 0 [''self'' \<mapsto> PyInt 1] = (root_state, Inl TypeError)"
    by (rule clone_self_keyword [of _ "PyInt 1"]) simp
  show "snd (clone root_state 0 [''determine_probability'' \<mapsto> PyInt 5]) = Inr 1"
    by (rule shadowing_state_simps)
  show "(WeaponType_ns shadowing_state ++ Map.empty) ''rarity'' = Some (PyStr ''common'')"
    by (simp add: shadowing_state_simps root_state_simps WeaponType_class_def)
  show "snd (clone shadowing_state 1 Map.empty) = Inl TypeError"
    by (rule clone_shadowing_state) simp
qed


text \<open>
  Claim C2, for the calls that reach the class method. Let the class be the one of the source, let the receiver have no
  instance attribute \<^verbatim>\<open>determine_probability\<close>, and let no override be named \<^verbatim>\<open>self\<close>.
  A \<^verbatim>\<open>clone\<close> whose overrides give a rarity other than \<^verbatim>\<open>"common"\<close>, \<^verbatim>\<open>"uncommon"\<close> and
  \<^verbatim>\<open>"rare"\<close> and no \<^verbatim>\<open>prob\<close> raises: the result of the call is the exception, which
  \<^verbatim>\<open>clone\<close> does not catch. The exception is Python's KeyError, with the message of the
  source; the specification calls it ConfigurationError.
\<close>

theorem clone_unrecognized_rarity_raises:
  assumes "WeaponType_ns s = WeaponType_class"
    and "self < length (instances s)"
    and "(instances s ! self) ''determine_probability'' = None"
    and "attrs ''self'' = None"
    and "attrs ''rarity'' = Some r"
    and "r \<noteq> PyStr ''common''" and "r \<noteq> PyStr ''uncommon''" and "r \<noteq> PyStr ''rare''"
    and "attrs ''prob'' = None"
  shows "\<exists>s'. clone s self attrs =
           (s', Inl (KeyError ''Rarity not defined, please provide a prob''))"
proof -
  have recv: "getattr s self ''determine_probability'' = Some BoundDetermineProbability"
    using assms(1-3) by (rule receiver_ok)
  from assms(5) have rarity: "(WeaponType_ns s ++ attrs) ''rarity'' = Some r"
    by (simp add: map_add_def)
  from assms(1,9) have prob: "(WeaponType_ns s ++ attrs) ''prob'' = None"
    by (simp add: map_add_def WeaponType_class_def)
  have "determine_probability (s\<lparr>instances := instances s @ [attrs]\<rparr>) (length (instances s))
          = Inl (KeyError ''Rarity not defined, please provide a prob'')"
    unfolding determine_probability_new rarity prob using assms(6-8) by simp
  with assms(4) recv show ?thesis
    by (simp add: clone_raises)
qed

theorem clone_unrecognized_rarity_raises_witness:
  "\<exists>s'. clone root_state 0 [''name'' \<mapsto> PyStr ''diamond'', ''rarity'' \<mapsto> PyStr ''godlike''] =
           (s', Inl (KeyError ''Rarity not defined, please provide a prob''))"
  by (rule clone_unrecognized_rarity_raises [where r = "PyStr ''godlike''"])
     (simp_all add: root_state_simps)

text \<open>Claim C2 without these conditions fails: with an override named \<^verbatim>\<open>self\<close>, and on
  the prototype \<open>p\<close> of \<open>shadowing_state\<close>, the exception is TypeError.\<close>

theorem clone_unrecognized_rarity_raises_counterexample:
  "clone root_state 0 [''rarity'' \<mapsto> PyStr ''godlike'', ''self'' \<mapsto> PyInt 1]
     = (root_state, Inl TypeError) \<and>
   snd (clone root_state 0 [''determine_probability'' \<mapsto> PyInt 5]) = Inr 1 \<and>
   WeaponType_ns shadowing_state = WeaponType_class \<and>
   snd (clone shadowing_state 1 [''rarity'' \<mapsto> PyStr ''godlike'']) = Inl TypeError \<and>
   TypeError \<noteq> KeyError ''Rarity not defined, please provide a prob''"
proof (intro conjI)
  show "clone root_state 0 [''rarity'' \<mapsto> PyStr ''godlike'', ''self'' \<mapsto> PyInt 1]
          = (root_state, Inl TypeError)"
    by (rule clone_self_keyword [of _ "PyInt 1"]) simp
  show "snd (clone root_state 0 [''determine_probability'' \<mapsto> PyInt 5]) = Inr 1"
    by (rule shadowing_state_simps)
  show "WeaponType_ns shadowing_state = WeaponType_class"
    by (simp add: shadowing_state_simps root_state_simps)
  show "snd (clone shadowing_state 1 [''rarity'' \<mapsto> PyStr ''godlike'']) = Inl TypeError"
    by (rule clone_shadowing_state) simp
  show "TypeError \<noteq> KeyError ''Rarity not defined, please provide a prob''"
    by simp
qed

text \<open>
  Claim C3, for the calls that reach the class method. Let the receiver read \<^verbatim>\<open>determine_probability\<close> as the class
  method, and let no override be named \<^verbatim>\<open>self\<close>. A \<^verbatim>\<open>clone\<close> whose overrides give a
  rarity outside the table together with a \<^verbatim>\<open>prob\<close> returns an instance, and the \<^verbatim>\<open>prob\<close>
  of that instance is the value given.
\<close>

theorem clone_explicit_prob:
  assumes "getattr s self ''determine_probability'' = Some BoundDetermineProbability"
    and "attrs ''self'' = None"
    and "attrs ''rarity'' = Some r"
    and "r \<noteq> PyStr ''common''" and "r \<noteq> PyStr ''uncommon''" and "r \<noteq> PyStr ''rare''"
    and "attrs ''prob'' = Some p"
  shows "\<exists>s' obj. clone s self attrs = (s', Inr obj) \<and>
           getattr s' obj ''prob'' = Some (Value p) \<and>
           getattr s' obj ''rarity'' = Some (Value r)"
proof -
  from assms(3) have rarity: "(WeaponType_ns s ++ attrs) ''rarity'' = Some r"
    by (simp add: map_add_def)
  from assms(7) have prob: "(WeaponType_ns s ++ attrs) ''prob'' = Some p"
    by (simp add: map_add_def)
  have "determine_probability (s\<lparr>instances := instances s @ [attrs]\<rparr>) (length (instances s))
          = Inr p"
    unfolding determine_probability_new rarity prob using assms(4-6) by simp
  with assms(2,1) have
    c: "clone s self attrs =
          (s\<lparr>instances := instances s @ [attrs(''prob'' \<mapsto> p)]\<rparr>, Inr (length (instances s)))"
    by (rule clone_returns)
  have g1: "getattr (s\<lparr>instances := instances s @ [attrs(''prob'' \<mapsto> p)]\<rparr>)
              (length (instances s)) ''prob'' = Some (Value p)"
    by (simp add: getattr_new_data data_names)
  have g2: "getattr (s\<lparr>instances := instances s @ [attrs(''prob'' \<mapsto> p)]\<rparr>)
              (length (instances s)) ''rarity'' = Some (Value r)"
    using assms(3) by (simp add: getattr_new_data data_names map_add_def)
  from c g1 g2 show ?thesis by blast
qed

theorem clone_explicit_prob_witness:
  "\<exists>s' obj. clone root_state 0
       [''name'' \<mapsto> PyStr ''diamond'', ''rarity'' \<mapsto> PyStr ''godlike'', ''prob'' \<mapsto> PyFloat 0.005]
       = (s', Inr obj) \<and>
     getattr s' obj ''prob'' = Some (Value (PyFloat 0.005)) \<and>
     getattr s' obj ''rarity'' = Some (Value (PyStr ''godlike''))"
  by (rule clone_explicit_prob [OF root_receiver]) simp_all

text \<open>Claim C3 without these conditions fails: with an override named \<^verbatim>\<open>self\<close>, and on
  the prototype \<open>p\<close> of \<open>shadowing_state\<close>, the call raises TypeError.\<close>

theorem clone_explicit_prob_counterexample:
  "clone root_state 0
     [''rarity'' \<mapsto> PyStr ''godlike'', ''prob'' \<mapsto> PyFloat 0.005, ''self'' \<mapsto> PyInt 1]
     = (root_state, Inl TypeError) \<and>
   snd (clone root_state 0 [''determine_probability'' \<mapsto> PyInt 5]) = Inr 1 \<and>
   snd (clone shadowing_state 1 [''rarity'' \<mapsto> PyStr ''godlike'', ''prob'' \<mapsto> PyFloat 0.005])
     = Inl TypeError"
proof (intro conjI)
  show "clone root_state 0
     [''rarity'' \<mapsto> PyStr ''godlike'', ''prob'' \<mapsto> PyFloat 0.005, ''self'' \<mapsto> PyInt 1]
     = (root_state, Inl TypeError)"
    by (rule clone_self_keyword [of _ "PyInt 1"]) simp
  show "snd (clone root_state 0 [''determine_probability'' \<mapsto> PyInt 5]) = Inr 1"
    by (rule shadowing_state_simps)
  show "snd (clone shadowing_state 1 [''rarity'' \<mapsto> PyStr ''godlike'', ''prob'' \<mapsto> PyFloat 0.005])
     = Inl TypeError"
    by (rule clone_shadowing_state) simp
qed


text \<open>
  Claim C4, for the calls that reach the class method. \<^verbatim>\<open>clone\<close> builds the new instance from the class, not from the
  receiver. Let the class be the one of the source, and let the receiver have no instance
  attribute \<^verbatim>\<open>determine_probability\<close>; its other attributes are arbitrary. Then
  \<^verbatim>\<open>clone()\<close> without overrides returns an instance named \<^verbatim>\<open>'iron'\<close> of rarity
  \<^verbatim>\<open>"common"\<close>. With overrides, whenever \<^verbatim>\<open>clone\<close> returns, every attribute of the returned
  instance other than \<^verbatim>\<open>prob\<close> and the three data descriptors is the override where there
  is one, and what the class gives otherwise.
\<close>

theorem clone_from_class_defaults:
  assumes "WeaponType_ns s = WeaponType_class"
    and "self < length (instances s)"
    and "(instances s ! self) ''determine_probability'' = None"
  shows "(\<exists>s' obj. clone s self Map.empty = (s', Inr obj) \<and>
            getattr s' obj ''name'' = Some (Value (PyStr ''iron'')) \<and>
            getattr s' obj ''rarity'' = Some (Value (PyStr ''common''))) \<and>
         (\<forall>attrs s' obj n. clone s self attrs = (s', Inr obj) \<longrightarrow>
            n \<noteq> ''prob'' \<longrightarrow> n \<notin> set data_descriptors \<longrightarrow>
            getattr s' obj n =
              (case attrs n of
                 Some v \<Rightarrow> Some (Value v)
               | None \<Rightarrow> class_getattr s obj n))"
proof (intro conjI allI impI)
  have recv: "getattr s self ''determine_probability'' = Some BoundDetermineProbability"
    using assms by (rule receiver_ok)
  from assms(1) have "(WeaponType_ns s ++ Map.empty) ''rarity'' = Some (PyStr ''common'')"
    by (simp add: WeaponType_class_def)
  then have "determine_probability (s\<lparr>instances := instances s @ [Map.empty]\<rparr>)
               (length (instances s)) = Inr (PyFloat 0.8)"
    unfolding determine_probability_new by simp
  with recv have
    c: "clone s self Map.empty =
         (s\<lparr>instances := instances s @ [[''prob'' \<mapsto> PyFloat 0.8]]\<rparr>, Inr (length (instances s)))"
    by (simp add: clone_returns)
  have g1: "getattr (s\<lparr>instances := instances s @ [[''prob'' \<mapsto> PyFloat 0.8]]\<rparr>)
              (length (instances s)) ''name'' = Some (Value (PyStr ''iron''))"
    using assms(1) by (simp add: getattr_new_data data_names WeaponType_class_def)
  have g2: "getattr (s\<lparr>instances := instances s @ [[''prob'' \<mapsto> PyFloat 0.8]]\<rparr>)
              (length (instances s)) ''rarity'' = Some (Value (PyStr ''common''))"
    using assms(1) by (simp add: getattr_new_data data_names WeaponType_class_def)
  from c g1 g2 show "\<exists>s' obj. clone s self Map.empty = (s', Inr obj) \<and>
            getattr s' obj ''name'' = Some (Value (PyStr ''iron'')) \<and>
            getattr s' obj ''rarity'' = Some (Value (PyStr ''common''))"
    by blast
next
  fix attrs s' obj n
  assume c: "clone s self attrs = (s', Inr obj)" and n: "n \<noteq> ''prob''"
    and d: "n \<notin> set data_descriptors"
  from clone_Inr [OF c] obtain p where
    obj: "obj = length (instances s)" and
    s': "s' = s\<lparr>instances := instances s @ [attrs(''prob'' \<mapsto> p)]\<rparr>"
    by blast
  from n show "getattr s' obj n =
      (case attrs n of Some v \<Rightarrow> Some (Value v) | None \<Rightarrow> class_getattr s obj n)"
    unfolding obj s' getattr_new [OF d] by simp
qed

theorem clone_from_class_defaults_witness:
  "getattr (fst (setattr (fst (setattr root_state 0 ''name'' (PyStr ''bronze''))) 0
                   ''rarity'' (PyStr ''godlike'')))
     0 ''name'' = Some (Value (PyStr ''bronze'')) \<and>
   (\<exists>s' obj. clone (fst (setattr (fst (setattr root_state 0 ''name'' (PyStr ''bronze''))) 0
                            ''rarity'' (PyStr ''godlike'')))
        0 Map.empty = (s', Inr obj) \<and>
      getattr s' obj ''name'' = Some (Value (PyStr ''iron'')) \<and>
      getattr s' obj ''rarity'' = Some (Value (PyStr ''common'')))"
proof -
  let ?s = "fst (setattr (fst (setattr root_state 0 ''name'' (PyStr ''bronze''))) 0
                   ''rarity'' (PyStr ''godlike''))"
  have cls: "WeaponType_ns ?s = WeaponType_class"
    by (simp add: setattr_def root_state_simps)
  have len: "0 < length (instances ?s)"
    by (simp add: setattr_def root_state_simps)
  have free: "(instances ?s ! 0) ''determine_probability'' = None"
    by (simp add: setattr_def root_state_simps)
  have "getattr ?s 0 ''name'' = Some (Value (PyStr ''bronze''))"
    by (simp add: getattr_def setattr_def root_state_simps data_names)
  with clone_from_class_defaults [OF cls len free, THEN conjunct1] show ?thesis
    by (intro conjI)
qed

text \<open>Claim C4 without this condition fails on a receiver whose instance attribute
  \<^verbatim>\<open>determine_probability\<close> has been set, on the root prototype itself or by an override
  as on the prototype \<open>p\<close> of \<open>shadowing_state\<close>: \<^verbatim>\<open>clone()\<close> raises TypeError.\<close>

theorem clone_from_class_defaults_counterexample:
  "snd (setattr root_state 0 ''determine_probability'' (PyInt 5)) = Inr () \<and>
   WeaponType_ns (fst (setattr root_state 0 ''determine_probability'' (PyInt 5)))
     = WeaponType_class \<and>
   snd (clone (fst (setattr root_state 0 ''determine_probability'' (PyInt 5))) 0 Map.empty)
     = Inl TypeError \<and>
   snd (clone root_state 0 [''determine_probability'' \<mapsto> PyInt 5]) = Inr 1 \<and>
   snd (clone shadowing_state 1 Map.empty) = Inl TypeError"
proof (intro conjI)
  let ?s = "fst (setattr root_state 0 ''determine_probability'' (PyInt 5))"
  show "snd (setattr root_state 0 ''determine_probability'' (PyInt 5)) = Inr ()"
    by (simp add: setattr_def)
  show "WeaponType_ns ?s = WeaponType_class"
    by (simp add: setattr_def root_state_simps)
  have "getattr ?s 0 ''determine_probability'' = Some (Value (PyInt 5))"
    by (simp add: getattr_def setattr_def root_state_simps data_names)
  from clone_shadowed [OF _ this, of Map.empty]
  show "snd (clone ?s 0 Map.empty) = Inl TypeError"
    by simp
  show "snd (clone root_state 0 [''determine_probability'' \<mapsto> PyInt 5]) = Inr 1"
    by (rule shadowing_state_simps)
  show "snd (clone shadowing_state 1 Map.empty) = Inl TypeError"
    by (rule clone_shadowing_state) simp
qed

text \<open>
  Claim C8. Take a first clone of a prototype, and a second clone made in any later store
  \<open>t\<close> (objects are not removed from the store). The two clones and the prototype are
  three different objects. Every returned clone has the attribute \<^verbatim>\<open>prob\<close>; cloning
  changes no attribute of the receiver or of the earlier clone; and setting an attribute
  of one of the three changes no attribute read from another, and takes effect on the
  one it is set on, the three data descriptors apart.
\<close>

theorem clone_independent:
  assumes "self < length (instances s)"
    and "clone s self attrs1 = (s1, Inr c1)"
    and "length (instances s1) \<le> length (instances t)"
    and "clone t self attrs2 = (s2, Inr c2)"
  shows "c1 \<noteq> self \<and> c2 \<noteq> self \<and> c1 \<noteq> c2 \<and>
         hasattr s1 c1 ''prob'' \<and> hasattr s2 c2 ''prob'' \<and>
         (\<forall>n. getattr s1 self n = getattr s self n) \<and>
         (\<forall>n. getattr s2 self n = getattr t self n) \<and>
         (\<forall>n. getattr s2 c1 n = getattr t c1 n) \<and>
         (\<forall>a b n v m. a \<in> {self, c1, c2} \<longrightarrow> b \<in> {self, c1, c2} \<longrightarrow> a \<noteq> b \<longrightarrow>
            getattr (fst (setattr s2 a n v)) b m = getattr s2 b m \<and>
            (n \<notin> set data_descriptors \<longrightarrow>
               snd (setattr s2 a n v) = Inr () \<and>
               getattr (fst (setattr s2 a n v)) a n = Some (Value v)))"
proof -
  from clone_Inr [OF assms(2)] obtain p1 where
    c1: "c1 = length (instances s)" and
    s1: "s1 = s\<lparr>instances := instances s @ [attrs1(''prob'' \<mapsto> p1)]\<rparr>"
    by blast
  from clone_Inr [OF assms(4)] obtain p2 where
    c2: "c2 = length (instances t)" and
    s2: "s2 = t\<lparr>instances := instances t @ [attrs2(''prob'' \<mapsto> p2)]\<rparr>"
    by blast
  have len1: "length (instances s1) = Suc (length (instances s))"
    by (simp add: s1)
  with assms(3) have lent: "Suc (length (instances s)) \<le> length (instances t)"
    by simp
  have len2: "length (instances s2) = Suc (length (instances t))"
    by (simp add: s2)
  have distinct: "c1 \<noteq> self" "c2 \<noteq> self" "c1 \<noteq> c2"
    using assms(1) lent by (simp_all add: c1 c2)
  have p1: "hasattr s1 c1 ''prob''"
    unfolding hasattr_def c1 s1 by (simp add: getattr_new_data data_names)
  have p2: "hasattr s2 c2 ''prob''"
    unfolding hasattr_def c2 s2 by (simp add: getattr_new_data data_names)
  have self1: "getattr s1 self n = getattr s self n" for n
    unfolding s1 using assms(1) by (rule getattr_old)
  have self2: "getattr s2 self n = getattr t self n" for n
    unfolding s2 using assms(1) lent by (intro getattr_old) simp
  have c12: "getattr s2 c1 n = getattr t c1 n" for n
    unfolding s2 using lent c1 by (intro getattr_old) simp
  have frame: "getattr (fst (setattr s2 a n v)) b m = getattr s2 b m \<and>
               (n \<notin> set data_descriptors \<longrightarrow>
                  snd (setattr s2 a n v) = Inr () \<and>
                  getattr (fst (setattr s2 a n v)) a n = Some (Value v))"
    if "a \<in> {self, c1, c2}" "b \<in> {self, c1, c2}" "a \<noteq> b" for a b n v m
  proof -
    from that(1) assms(1) lent have "a < length (instances s2)"
      by (auto simp: len2 c1 c2)
    with that(3) show ?thesis
      using getattr_setattr_same [of a s2 n v] by (simp add: getattr_setattr_other)
  qed
  from distinct p1 p2 self1 self2 c12 frame show ?thesis
    by blast
qed

theorem clone_independent_witness:
  "\<exists>s1 c1 s2 c2.
     clone root_state 0 [''name'' \<mapsto> PyStr ''wood'', ''rarity'' \<mapsto> PyStr ''uncommon''] = (s1, Inr c1) \<and>
     clone s1 0 [''name'' \<mapsto> PyStr ''steel'', ''rarity'' \<mapsto> PyStr ''rare''] = (s2, Inr c2) \<and>
     c1 \<noteq> 0 \<and> c2 \<noteq> 0 \<and> c1 \<noteq> c2 \<and> hasattr s1 c1 ''prob'' \<and> hasattr s2 c2 ''prob'' \<and>
     getattr (fst (setattr s2 c1 ''name'' (PyStr ''oak''))) c2 ''name'' = getattr s2 c2 ''name'' \<and>
     getattr (fst (setattr s2 c1 ''name'' (PyStr ''oak''))) 0 ''name'' = getattr s2 0 ''name'' \<and>
     getattr (fst (setattr s2 c1 ''name'' (PyStr ''oak''))) c1 ''name'' = Some (Value (PyStr ''oak''))"
proof -
  let ?a1 = "[''name'' \<mapsto> PyStr ''wood'', ''rarity'' \<mapsto> PyStr ''uncommon'']"
  let ?a2 = "[''name'' \<mapsto> PyStr ''steel'', ''rarity'' \<mapsto> PyStr ''rare'']"
  let ?s1 = "root_state\<lparr>instances := instances root_state @ [?a1(''prob'' \<mapsto> PyFloat 0.4)]\<rparr>"
  have len: "(0::nat) < length (instances root_state)"
    by (simp add: root_state_simps)
  have "determine_probability (root_state\<lparr>instances := instances root_state @ [?a1]\<rparr>)
          (length (instances root_state)) = Inr (PyFloat 0.4)"
    unfolding determine_probability_new by simp
  from clone_returns [OF _ root_receiver this]
  have k1: "clone root_state 0 ?a1 = (?s1, Inr (length (instances root_state)))"
    by simp
  have recv1: "getattr ?s1 0 ''determine_probability'' = Some BoundDetermineProbability"
    using root_receiver len by (simp add: getattr_old)
  have "determine_probability (?s1\<lparr>instances := instances ?s1 @ [?a2]\<rparr>)
          (length (instances ?s1)) = Inr (PyFloat 0.05)"
    unfolding determine_probability_new by simp
  from clone_returns [OF _ recv1 this]
  obtain s2 c2 where k2: "clone ?s1 0 ?a2 = (s2, Inr c2)"
    by simp
  note ind = clone_independent [OF len k1 le_refl k2]
  let ?c1 = "length (instances root_state)"
  from ind have d: "?c1 \<noteq> 0" "c2 \<noteq> 0" "?c1 \<noteq> c2" "hasattr ?s1 ?c1 ''prob''"
      "hasattr s2 c2 ''prob''"
    by simp_all
  from ind have
    frame: "\<forall>a b n v m. a \<in> {0, ?c1, c2} \<longrightarrow> b \<in> {0, ?c1, c2} \<longrightarrow> a \<noteq> b \<longrightarrow>
            getattr (fst (setattr s2 a n v)) b m = getattr s2 b m \<and>
            (n \<notin> set data_descriptors \<longrightarrow>
               snd (setattr s2 a n v) = Inr () \<and>
               getattr (fst (setattr s2 a n v)) a n = Some (Value v))"
    by (elim conjE)
  from frame [rule_format, of ?c1 c2 "''name''" "PyStr ''oak''" "''name''"] d
  have f1: "getattr (fst (setattr s2 ?c1 ''name'' (PyStr ''oak''))) c2 ''name'' = getattr s2 c2 ''name''"
    and f3: "getattr (fst (setattr s2 ?c1 ''name'' (PyStr ''oak''))) ?c1 ''name'' = Some (Value (PyStr ''oak''))"
    by (simp_all add: data_names)
  from frame [rule_format, of ?c1 0 "''name''" "PyStr ''oak''" "''name''"] d
  have f2: "getattr (fst (setattr s2 ?c1 ''name'' (PyStr ''oak''))) 0 ''name'' = getattr s2 0 ''name''"
    by simp
  from k1 k2 d f1 f2 f3 show ?thesis
    by (intro exI conjI)
qed

text \<open>
  Claim C10. When \<^verbatim>\<open>clone\<close> raises, the store it leaves behind has the same class
  attributes, the same dictionaries and the same attributes for the receiver and for every
  other instance that existed before the call.
\<close>

theorem clone_error_atomic:
  assumes "self < length (instances s)"
    and "clone s self attrs = (s', Inl e)"
  shows "instances s' ! self = instances s ! self \<and>
         (\<forall>n. getattr s' self n = getattr s self n) \<and>
         WeaponType_ns s' = WeaponType_ns s \<and>
         (\<forall>a n. a < length (instances s) \<longrightarrow> getattr s' a n = getattr s a n) \<and>
         dicts s' = dicts s"
  using assms(1) clone_Inl [OF assms(2)] by (auto simp: getattr_old nth_append)

theorem clone_error_atomic_witness:
  "\<exists>s' e. clone root_state 0 [''rarity'' \<mapsto> PyStr ''godlike''] = (s', Inl e) \<and>
     instances s' ! 0 = instances root_state ! 0 \<and>
     (\<forall>n. getattr s' 0 n = getattr root_state 0 n) \<and>
     WeaponType_ns s' = WeaponType_ns root_state \<and>
     dicts s' = dicts root_state"
proof -
  have len: "(0::nat) < length (instances root_state)"
    by (simp add: root_state_simps)
  have "determine_probability
          (root_state\<lparr>instances := instances root_state @ [[''rarity'' \<mapsto> PyStr ''godlike'']]\<rparr>)
          (length (instances root_state))
        = Inl (KeyError ''Rarity not defined, please provide a prob'')"
    unfolding determine_probability_new by (simp add: root_state_simps WeaponType_class_def)
  from clone_raises [OF _ root_receiver this] obtain s' where
    c: "clone root_state 0 [''rarity'' \<mapsto> PyStr ''godlike''] =
          (s', Inl (KeyError ''Rarity not defined, please provide a prob''))"
    by simp
  from clone_error_atomic [OF len c] c show ?thesis
    by blast
qed

section \<open>The registry\<close>

text \<open>
  Lookup, insertion and deletion on a dictionary, by induction on its entries. The keys
  of a dictionary after \<^verbatim>\<open>d[k] = v\<close> are the old keys, with \<open>k\<close> at the end when it is
  new; after \<^verbatim>\<open>del d[k]\<close> they are the old keys without \<open>k\<close>.
\<close>

lemma dict_getitem_setitem_same: "dict_getitem (dict_setitem d k v) k = Inr v"
  by (induction d) auto

lemma dict_getitem_setitem_other:
  "k' \<noteq> k \<Longrightarrow> dict_getitem (dict_setitem d k v) k' = dict_getitem d k'"
  by (induction d) auto

lemma keys_setitem:
  "map fst (dict_setitem d k v) =
     (if k \<in> set (map fst d) then map fst d else map fst d @ [k])"
proof (induction d)
  case Nil
  show ?case by simp
next
  case (Cons e d)
  obtain k' v' where e: "e = (k', v')" by (cases e)
  show ?case
  proof (cases "k' = k")
    case True
    with e show ?thesis by simp
  next
    case False
    with e Cons.IH show ?thesis by simp
  qed
qed

lemma keys_delitem: "dict_delitem d k = Inr d' \<Longrightarrow> map fst d' = remove1 k (map fst d)"
proof (induction d arbitrary: d')
  case Nil
  then show ?case by simp
next
  case (Cons e d)
  obtain k' v' where e: "e = (k', v')" by (cases e)
  show ?case
  proof (cases "k' = k")
    case True
    with Cons.prems e show ?thesis by simp
  next
    case False
    with Cons.prems e obtain d'' where
      d'': "dict_delitem d k = Inr d''" and d': "d' = (k', v') # d''"
      by (auto split: sum.splits)
    from Cons.IH [OF d''] False e d' show ?thesis by simp
  qed
qed

lemma dict_ok_setitem: "dict_ok d \<Longrightarrow> dict_ok (dict_setitem d k v)"
  by (simp add: dict_ok_def keys_setitem)

lemma dict_contains_setitem: "dict_contains (dict_setitem d k v) k"
  by (simp add: dict_contains_def keys_setitem)

lemma dict_entries_keys: "dict_entries d k = count_list (map fst d) k"
  by (induction d) (simp_all add: dict_entries_def)

lemma count_list_distinct: "distinct xs \<Longrightarrow> x \<in> set xs \<Longrightarrow> count_list xs x = 1"
  by (induction xs) auto

lemma dict_entries_setitem:
  assumes "dict_ok d"
  shows "dict_entries (dict_setitem d k v) k = 1"
proof -
  from assms have "distinct (map fst (dict_setitem d k v))"
    using dict_ok_setitem by (simp add: dict_ok_def)
  moreover have "k \<in> set (map fst (dict_setitem d k v))"
    using dict_contains_setitem by (simp add: dict_contains_def)
  ultimately show ?thesis
    unfolding dict_entries_keys by (rule count_list_distinct)
qed

lemma dict_delitem_absent: "\<not> dict_contains d k \<Longrightarrow> dict_delitem d k = Inl (KeyError k)"
proof (induction d)
  case Nil
  show ?case by simp
next
  case (Cons e d)
  obtain k' v' where e: "e = (k', v')" by (cases e)
  from Cons.prems e have "k' \<noteq> k" and "\<not> dict_contains d k"
    by (auto simp: dict_contains_def)
  with Cons.IH e show ?case by simp
qed

lemma dict_delitem_present:
  "dict_contains d k \<Longrightarrow> \<exists>d'. dict_delitem d k = Inr d'"
proof (induction d)
  case Nil
  then show ?case by (simp add: dict_contains_def)
next
  case (Cons e d)
  obtain k' v' where e: "e = (k', v')" by (cases e)
  show ?case
  proof (cases "k' = k")
    case True
    with e show ?thesis by simp
  next
    case False
    with Cons.prems e have "dict_contains d k" by (simp add: dict_contains_def)
    then obtain d' where "dict_delitem d k = Inr d'" using Cons.IH by blast
    with False e show ?thesis by simp
  qed
qed

lemma dict_delitem_ok:
  assumes "dict_ok d" and "dict_delitem d k = Inr d'"
  shows "dict_ok d' \<and> \<not> dict_contains d' k"
  using assms(1) by (simp add: dict_ok_def dict_contains_def keys_delitem [OF assms(2)])

lemma dict_getitem_delitem_other:
  "dict_delitem d k = Inr d' \<Longrightarrow> k' \<noteq> k \<Longrightarrow> dict_getitem d' k' = dict_getitem d k'"
proof (induction d arbitrary: d')
  case Nil
  then show ?case by simp
next
  case (Cons e d)
  obtain k0 v0 where e: "e = (k0, v0)" by (cases e)
  show ?case
  proof (cases "k0 = k")
    case True
    with Cons.prems e show ?thesis by simp
  next
    case False
    with Cons.prems(1) e obtain d'' where
      d'': "dict_delitem d k = Inr d''" and d': "d' = (k0, v0) # d''"
      by (auto split: sum.splits)
    from Cons.IH [OF d'' Cons.prems(2)] e d' show ?thesis by simp
  qed
qed

lemma dict_contains_getitem: "dict_contains d k = (\<exists>v. dict_getitem d k = Inr v)"
proof (induction d)
  case Nil
  show ?case by (simp add: dict_contains_def)
next
  case (Cons e d)
  obtain k' v' where e: "e = (k', v')" by (cases e)
  from Cons.IH e show ?case by (simp add: dict_contains_def)
qed


lemma dict_getitem_absent: "\<not> dict_contains d k \<Longrightarrow> dict_getitem d k = Inl (KeyError k)"
proof (induction d)
  case Nil
  show ?case by simp
next
  case (Cons e d)
  obtain k' v' where e: "e = (k', v')" by (cases e)
  from Cons.prems e have "k' \<noteq> k" and "\<not> dict_contains d k"
    by (auto simp: dict_contains_def)
  with Cons.IH e show ?case by simp
qed

lemma deref_register_object:
  "objects r < length (dicts s) \<Longrightarrow>
     deref (register_object s r x p) (objects r) = dict_setitem (deref s (objects r)) x p"
  by (simp add: deref_def register_object_def)

lemma registry_ok_register_object:
  "registry_ok s r \<Longrightarrow> registry_ok (register_object s r x p) r"
  by (simp add: registry_ok_def register_object_def dict_ok_setitem)

lemma unregister_object_Inr:
  assumes "objects r < length (dicts s)"
    and "dict_delitem (deref s (objects r)) x = Inr d"
  shows "unregister_object s r x = (s\<lparr>dicts := (dicts s)[objects r := d]\<rparr>, Inr ())"
    and "deref (fst (unregister_object s r x)) (objects r) = d"
  using assms by (simp_all add: unregister_object_def deref_def)

text \<open>The registry that \<^verbatim>\<open>main\<close> creates is empty.\<close>

lemma registry_ok_root: "registry_ok root_state registry"
  by (simp add: registry_ok_def dict_ok_def root_state_simps)

lemma deref_root: "deref root_state (get_objects registry) = []"
  by (simp add: deref_def get_objects_def root_state_simps)

lemma deref_register_root:
  "deref (register_object root_state registry x p) (get_objects registry) = [(x, p)]"
  by (simp add: deref_def get_objects_def register_object_def root_state_simps)

text \<open>
  Claim C5. \<^verbatim>\<open>unregister_object\<close> on a name that the registry's dictionary does not
  hold raises KeyError (the specification's NotFoundError) with that name and leaves the
  store as it was. On a name it holds, the call returns without an exception, the name is
  no longer a key, and every other name is looked up as before.
\<close>

theorem unregister_object_raises_iff_absent:
  assumes "registry_ok s r"
  shows "(\<not> dict_contains (deref s (get_objects r)) x \<longrightarrow>
            unregister_object s r x = (s, Inl (KeyError x))) \<and>
         (dict_contains (deref s (get_objects r)) x \<longrightarrow>
            (\<exists>s'. unregister_object s r x = (s', Inr ()) \<and>
               \<not> dict_contains (deref s' (get_objects r)) x \<and>
               (\<forall>k. k \<noteq> x \<longrightarrow>
                  dict_getitem (deref s' (get_objects r)) k =
                  dict_getitem (deref s (get_objects r)) k) \<and>
               registry_ok s' r))"
proof (intro conjI impI)
  assume "\<not> dict_contains (deref s (get_objects r)) x"
  then have "dict_delitem (dicts s ! objects r) x = Inl (KeyError x)"
    unfolding deref_def get_objects_def by (rule dict_delitem_absent)
  then show "unregister_object s r x = (s, Inl (KeyError x))"
    by (simp add: unregister_object_def)
next
  assume "dict_contains (deref s (get_objects r)) x"
  then obtain d where d: "dict_delitem (deref s (objects r)) x = Inr d"
    unfolding get_objects_def using dict_delitem_present by blast
  from assms have len: "objects r < length (dicts s)" and ok: "dict_ok (deref s (objects r))"
    by (simp_all add: registry_ok_def deref_def)
  let ?s' = "s\<lparr>dicts := (dicts s)[objects r := d]\<rparr>"
  have un: "unregister_object s r x = (?s', Inr ())"
    using len d by (rule unregister_object_Inr)
  have de: "deref ?s' (get_objects r) = d"
    using len by (simp add: deref_def get_objects_def)
  from dict_delitem_ok [OF ok d] have d_ok: "dict_ok d" and gone: "\<not> dict_contains d x"
    by simp_all
  have others: "\<forall>k. k \<noteq> x \<longrightarrow> dict_getitem d k = dict_getitem (deref s (get_objects r)) k"
    unfolding get_objects_def using dict_getitem_delitem_other [OF d] by blast
  have rok: "registry_ok ?s' r"
    using len d_ok by (simp add: registry_ok_def)
  show "\<exists>s'. unregister_object s r x = (s', Inr ()) \<and>
               \<not> dict_contains (deref s' (get_objects r)) x \<and>
               (\<forall>k. k \<noteq> x \<longrightarrow>
                  dict_getitem (deref s' (get_objects r)) k =
                  dict_getitem (deref s (get_objects r)) k) \<and>
               registry_ok s' r"
  proof (intro exI [of _ ?s'] conjI)
    show "unregister_object s r x = (?s', Inr ())" by (fact un)
    show "\<not> dict_contains (deref ?s' (get_objects r)) x" unfolding de by (fact gone)
    show "\<forall>k. k \<noteq> x \<longrightarrow> dict_getitem (deref ?s' (get_objects r)) k =
                  dict_getitem (deref s (get_objects r)) k"
      unfolding de by (fact others)
    show "registry_ok ?s' r" by (fact rok)
  qed
qed

theorem unregister_object_raises_iff_absent_witness:
  "unregister_object (register_object root_state registry ''iron'' 0) registry ''wood'' =
     (register_object root_state registry ''iron'' 0, Inl (KeyError ''wood'')) \<and>
   (\<exists>s'. unregister_object (register_object root_state registry ''iron'' 0) registry ''iron'' =
       (s', Inr ()) \<and>
     \<not> dict_contains (deref s' (get_objects registry)) ''iron'' \<and>
     registry_ok s' registry)"
proof -
  let ?s = "register_object root_state registry ''iron'' 0"
  have ok: "registry_ok ?s registry"
    using registry_ok_root by (rule registry_ok_register_object)
  have absent: "\<not> dict_contains (deref ?s (get_objects registry)) ''wood''"
    by (simp add: deref_register_root dict_contains_def)
  have present: "dict_contains (deref ?s (get_objects registry)) ''iron''"
    by (simp add: deref_register_root dict_contains_def)
  note a = unregister_object_raises_iff_absent [OF ok, of "''wood''", THEN conjunct1, THEN mp, OF absent]
  note b = unregister_object_raises_iff_absent [OF ok, of "''iron''", THEN conjunct2, THEN mp, OF present]
  from b obtain s' where
    "unregister_object ?s registry ''iron'' = (s', Inr ())"
    "\<not> dict_contains (deref s' (get_objects registry)) ''iron''"
    "registry_ok s' registry"
    by (elim exE conjE)
  then have "\<exists>s'. unregister_object ?s registry ''iron'' = (s', Inr ()) \<and>
     \<not> dict_contains (deref s' (get_objects registry)) ''iron'' \<and>
     registry_ok s' registry"
    by (intro exI conjI)
  with a show ?thesis by (intro conjI)
qed

text \<open>
  Claim C6. After \<^verbatim>\<open>register_object(x, p)\<close> the dictionary returned by \<^verbatim>\<open>get_objects\<close>
  maps \<open>x\<close> to the reference \<open>p\<close> itself; a following \<^verbatim>\<open>unregister_object(x)\<close> succeeds,
  and afterwards the dictionary returned by \<^verbatim>\<open>get_objects\<close> has no key \<open>x\<close>.
\<close>

theorem registry_round_trip:
  assumes "registry_ok s r"
  shows "dict_getitem (deref (register_object s r x p) (get_objects r)) x = Inr p \<and>
         (\<exists>s'. unregister_object (register_object s r x p) r x = (s', Inr ()) \<and>
            \<not> dict_contains (deref s' (get_objects r)) x \<and>
            dict_getitem (deref s' (get_objects r)) x = Inl (KeyError x))"
proof -
  let ?s1 = "register_object s r x p"
  from assms have len: "objects r < length (dicts s)"
    by (simp add: registry_ok_def)
  have d1: "deref ?s1 (get_objects r) = dict_setitem (deref s (objects r)) x p"
    unfolding get_objects_def using len by (rule deref_register_object)
  have get: "dict_getitem (deref ?s1 (get_objects r)) x = Inr p"
    unfolding d1 by (rule dict_getitem_setitem_same)
  have ok1: "registry_ok ?s1 r"
    using assms by (rule registry_ok_register_object)
  then have len1: "objects r < length (dicts ?s1)" and dok1: "dict_ok (deref ?s1 (objects r))"
    by (simp_all add: registry_ok_def deref_def)
  have "dict_contains (deref ?s1 (objects r)) x"
    using d1 dict_contains_setitem by (simp add: get_objects_def)
  then obtain d where d: "dict_delitem (deref ?s1 (objects r)) x = Inr d"
    using dict_delitem_present by blast
  let ?s2 = "?s1\<lparr>dicts := (dicts ?s1)[objects r := d]\<rparr>"
  have un: "unregister_object ?s1 r x = (?s2, Inr ())"
    using len1 d by (rule unregister_object_Inr)
  have de: "deref ?s2 (get_objects r) = d"
    using len1 by (simp add: deref_def get_objects_def)
  from dict_delitem_ok [OF dok1 d] have gone: "\<not> dict_contains d x"
    by simp
  then have miss: "dict_getitem d x = Inl (KeyError x)"
    by (rule dict_getitem_absent)
  show ?thesis
  proof (intro conjI exI [of _ ?s2])
    show "dict_getitem (deref ?s1 (get_objects r)) x = Inr p" by (fact get)
    show "unregister_object ?s1 r x = (?s2, Inr ())" by (fact un)
    show "\<not> dict_contains (deref ?s2 (get_objects r)) x" unfolding de by (fact gone)
    show "dict_getitem (deref ?s2 (get_objects r)) x = Inl (KeyError x)"
      unfolding de by (fact miss)
  qed
qed

theorem registry_round_trip_witness:
  "dict_getitem (deref (register_object root_state registry ''x'' 0) (get_objects registry)) ''x''
     = Inr 0 \<and>
   (\<exists>s'. unregister_object (register_object root_state registry ''x'' 0) registry ''x''
       = (s', Inr ()) \<and>
      \<not> dict_contains (deref s' (get_objects registry)) ''x'' \<and>
      dict_getitem (deref s' (get_objects registry)) ''x'' = Inl (KeyError ''x''))"
  using registry_ok_root by (rule registry_round_trip)

text \<open>
  Claim C7. After \<^verbatim>\<open>register_object(x, p1)\<close> and \<^verbatim>\<open>register_object(x, p2)\<close> the
  dictionary maps \<open>x\<close> to \<open>p2\<close> and holds exactly one entry for \<open>x\<close>; its keys stay
  pairwise different, and the second call adds no key. \<^verbatim>\<open>register_object\<close> has no
  exception among its results.
\<close>

theorem register_object_overwrites:
  assumes "registry_ok s r"
  shows "dict_getitem
           (deref (register_object (register_object s r x p1) r x p2) (get_objects r)) x
           = Inr p2 \<and>
         dict_entries
           (deref (register_object (register_object s r x p1) r x p2) (get_objects r)) x
           = 1 \<and>
         registry_ok (register_object (register_object s r x p1) r x p2) r \<and>
         map fst (deref (register_object (register_object s r x p1) r x p2) (get_objects r))
           = map fst (deref (register_object s r x p1) (get_objects r))"
proof -
  let ?s1 = "register_object s r x p1"
  let ?s2 = "register_object ?s1 r x p2"
  have ok1: "registry_ok ?s1 r"
    using assms by (rule registry_ok_register_object)
  then have ok2: "registry_ok ?s2 r"
    by (rule registry_ok_register_object)
  from assms have len: "objects r < length (dicts s)"
    by (simp add: registry_ok_def)
  from ok1 have len1: "objects r < length (dicts ?s1)" and dok1: "dict_ok (deref ?s1 (objects r))"
    by (simp_all add: registry_ok_def deref_def)
  have d1: "deref ?s1 (objects r) = dict_setitem (deref s (objects r)) x p1"
    using len by (rule deref_register_object)
  have d2: "deref ?s2 (objects r) = dict_setitem (deref ?s1 (objects r)) x p2"
    using len1 by (rule deref_register_object)
  have get: "dict_getitem (deref ?s2 (get_objects r)) x = Inr p2"
    unfolding get_objects_def d2 by (rule dict_getitem_setitem_same)
  have one: "dict_entries (deref ?s2 (get_objects r)) x = 1"
    unfolding get_objects_def d2 using dok1 by (rule dict_entries_setitem)
  have "x \<in> set (map fst (deref ?s1 (objects r)))"
    unfolding d1 using dict_contains_setitem [of "deref s (objects r)" x p1]
    by (simp add: dict_contains_def)
  then have keys: "map fst (deref ?s2 (get_objects r)) = map fst (deref ?s1 (get_objects r))"
    unfolding get_objects_def d2 by (simp add: keys_setitem)
  from get one ok2 keys show ?thesis
    by (intro conjI)
qed

theorem register_object_overwrites_witness:
  "dict_getitem
     (deref (register_object (register_object root_state registry ''x'' 0) registry ''x'' 1)
        (get_objects registry)) ''x'' = Inr 1 \<and>
   dict_entries
     (deref (register_object (register_object root_state registry ''x'' 0) registry ''x'' 1)
        (get_objects registry)) ''x'' = 1 \<and>
   registry_ok (register_object (register_object root_state registry ''x'' 0) registry ''x'' 1)
     registry \<and>
   map fst (deref (register_object (register_object root_state registry ''x'' 0) registry ''x'' 1)
        (get_objects registry))
     = map fst (deref (register_object root_state registry ''x'' 0) (get_objects registry))"
  using registry_ok_root by (rule register_object_overwrites)

text \<open>
  Claim C9. \<^verbatim>\<open>get_objects\<close> returns the registry's own dictionary. Through a reference
  \<open>m\<close> that it returned, a later \<^verbatim>\<open>register_object\<close> and a later \<^verbatim>\<open>unregister_object\<close>
  are visible; and a caller's \<^verbatim>\<open>m[k] = v\<close> changes what the registry holds: the registry
  then returns the new entry and unregisters \<open>k\<close> without an exception.
\<close>

theorem get_objects_is_the_internal_mapping:
  assumes "registry_ok s r" and "m = get_objects r"
  shows "deref (register_object s r x p) m = dict_setitem (deref s m) x p \<and>
         dict_getitem (deref (register_object s r x p) m) x = Inr p \<and>
         deref (fst (unregister_object s r x)) m =
           (case dict_delitem (deref s m) x of Inl e \<Rightarrow> deref s m | Inr d \<Rightarrow> d) \<and>
         deref (store_setitem s m k v) (get_objects r) =
           dict_setitem (deref s (get_objects r)) k v \<and>
         dict_getitem (deref (store_setitem s m k v) (get_objects r)) k = Inr v \<and>
         (\<exists>s'. unregister_object (store_setitem s m k v) r k = (s', Inr ()))"
proof -
  from assms(1) have len: "objects r < length (dicts s)"
    by (simp add: registry_ok_def)
  have m: "m = objects r"
    using assms(2) by (simp add: get_objects_def)
  have reg: "deref (register_object s r x p) m = dict_setitem (deref s m) x p"
    unfolding m using len by (rule deref_register_object)
  have get: "dict_getitem (deref (register_object s r x p) m) x = Inr p"
    unfolding reg by (rule dict_getitem_setitem_same)
  have unreg: "deref (fst (unregister_object s r x)) m =
           (case dict_delitem (deref s m) x of Inl e \<Rightarrow> deref s m | Inr d \<Rightarrow> d)"
    using len by (simp add: unregister_object_def deref_def m split: sum.splits)
  have st: "deref (store_setitem s m k v) (get_objects r) =
              dict_setitem (deref s (get_objects r)) k v"
    using len by (simp add: store_setitem_def deref_def m get_objects_def)
  have stget: "dict_getitem (deref (store_setitem s m k v) (get_objects r)) k = Inr v"
    unfolding st by (rule dict_getitem_setitem_same)
  have len': "objects r < length (dicts (store_setitem s m k v))"
    using len by (simp add: store_setitem_def)
  have "dict_contains (deref (store_setitem s m k v) (objects r)) k"
    using st dict_contains_setitem by (simp add: get_objects_def)
  then obtain d where "dict_delitem (deref (store_setitem s m k v) (objects r)) k = Inr d"
    using dict_delitem_present by blast
  with len' have del: "\<exists>s'. unregister_object (store_setitem s m k v) r k = (s', Inr ())"
    by (simp add: unregister_object_def deref_def)
  from reg get unreg st stget del show ?thesis
    by (intro conjI)
qed

theorem get_objects_is_the_internal_mapping_witness:
  "deref (register_object root_state registry ''x'' 0) (get_objects registry) = [(''x'', 0)] \<and>
   dict_getitem (deref (register_object root_state registry ''x'' 0) (get_objects registry)) ''x''
     = Inr 0 \<and>
   deref (fst (unregister_object (register_object root_state registry ''x'' 0) registry ''x''))
     (get_objects registry) = [] \<and>
   deref (store_setitem root_state (get_objects registry) ''y'' 0) (get_objects registry)
     = [(''y'', 0)] \<and>
   (\<exists>s'. unregister_object (store_setitem root_state (get_objects registry) ''y'' 0) registry ''y''
      = (s', Inr ()))"
proof -
  let ?m = "get_objects registry"
  let ?s = "register_object root_state registry ''x'' 0"
  have ok: "registry_ok ?s registry"
    using registry_ok_root by (rule registry_ok_register_object)
  note root = get_objects_is_the_internal_mapping
    [OF registry_ok_root refl, of "''x''" 0 "''y''" 0]
  note reg = get_objects_is_the_internal_mapping [OF ok refl, of "''x''" 0 "''y''" 0]
  from root have 1: "deref ?s ?m = [(''x'', 0)]"
    by (simp add: deref_root)
  from root have 2: "dict_getitem (deref ?s ?m) ''x'' = Inr 0"
    by (elim conjE)
  from reg have 3: "deref (fst (unregister_object ?s registry ''x'')) ?m = []"
    by (simp add: deref_register_root)
  from root have 4: "deref (store_setitem root_state ?m ''y'' 0) ?m = [(''y'', 0)]"
    by (simp add: deref_root)
  from root have 5: "\<exists>s'. unregister_object (store_setitem root_state ?m ''y'' 0) registry ''y''
      = (s', Inr ())"
    by (elim conjE)
  from 1 2 3 4 5 show ?thesis
    by (intro conjI)
qed

end
